theory Spec2Isabelle
  imports Complex_Main "HOL-Library.Char_ord" "HOL-Library.List_Lexorder"
begin

section \<open>The bookstore of bookstore.py\<close>

text \<open>
  The program keeps two tables in CSV files (\<^verbatim>\<open>books_inventory.csv\<close>,
  \<^verbatim>\<open>sales_history.csv\<close>), a receipt file and one module-level list
  \<^verbatim>\<open>cart_items\<close>. Every operation reads a table with \<^verbatim>\<open>pd.read_csv\<close>, works
  on the resulting frame in memory and writes it back with \<^verbatim>\<open>to_csv\<close>. The model
  passes the files and the cart around as one explicit state. The Inventory Table
  and the Sales Table of a state are what \<open>load_inventory\<close> and \<open>load_sales\<close> read
  from it, as every operation of the program sees them.

  Modelling decisions, all about the libraries the program calls:
  \<^item> Stock and Quantity are integers and prices are real numbers, as the table's
    declared column types; floating-point rounding is not modelled.
  \<^item> A text cell of a frame is \<open>string option\<close>: \<open>None\<close> is the missing value (NaN).
    A CSV file holds plain text, and \<^verbatim>\<open>read_csv\<close> with its default settings reads
    the empty field and the default missing-value markers as NaN, while \<^verbatim>\<open>to_csv\<close>
    writes NaN as the empty field. Text columns are read back as text (a column
    in which every cell parses as a number is outside the model).
  \<^item> \<^verbatim>\<open>datetime.now()\<close> reads a clock that is a field of the state.
  \<^item> The receipt is set in the core font Arial, which takes latin-1 text only, and
    its text holds the rupee sign U+20B9: the receipt generator raises when it
    encodes the page, before the receipt file is opened.
  \<^item> A Python exception is a value \<open>Inl e\<close>; the state returned with it is the state
    the process is left in.
\<close>

subsection \<open>Data\<close>

record 'c book =
  Title :: 'c
  Author :: 'c
  Publisher :: 'c
  Stock :: int
  Price :: real

record 'c sale =
  Date :: nat
  sale_Title :: 'c
  Quantity :: int
  PricePerUnit :: real
  Total :: real

text \<open>An entry of \<^verbatim>\<open>cart_items\<close>: the dict with keys Title, Quantity, Price.\<close>

record cart_line =
  item_Title :: string
  item_Quantity :: int
  item_Price :: real

record state =
  books_csv :: "string book list"
  sales_csv :: "string sale list"
  receipt_pdf :: "(nat \<times> cart_line list \<times> real) option"
  cart_items :: "cart_line list"
  now :: nat

datatype exn = NameError string | IndexError | UnicodeEncodeError

text \<open>The status messages the operations return, one constructor per message text.\<close>

datatype status =
    BookNotFound
  | InvalidQuantity
  | AddedToCart int string
  | CartIsEmpty
  | NotFoundInStock string
  | NotEnoughStock string int
  | PurchaseSuccessful real
  | BookExists
  | BookAdded
  | BookUpdated
  | BookRemoved

subsection \<open>The table store\<close>

text \<open>The strings \<^verbatim>\<open>read_csv\<close> reads as a missing value by default.\<close>

definition na_values :: "string list" where
  "na_values =
     ['''', ''#N/A'', ''#N/A N/A'', ''#NA'', ''-1.#IND'', ''-1.#QNAN'', ''-NaN'', ''-nan'',
      ''1.#IND'', ''1.#QNAN'', ''<NA>'', ''N/A'', ''NA'', ''NULL'', ''NaN'', ''None'',
      ''n/a'', ''nan'', ''null'']"

definition read_cell :: "string \<Rightarrow> string option" where
  "read_cell t = (if t \<in> set na_values then None else Some t)"

definition write_cell :: "string option \<Rightarrow> string" where
  "write_cell c = (case c of None \<Rightarrow> '''' | Some t \<Rightarrow> t)"

definition read_book :: "string book \<Rightarrow> string option book" where
  "read_book r =
     \<lparr>Title = read_cell (Title r), Author = read_cell (Author r),
      Publisher = read_cell (Publisher r), Stock = Stock r, Price = Price r\<rparr>"

definition write_book :: "string option book \<Rightarrow> string book" where
  "write_book b =
     \<lparr>Title = write_cell (Title b), Author = write_cell (Author b),
      Publisher = write_cell (Publisher b), Stock = Stock b, Price = Price b\<rparr>"

definition read_sale :: "string sale \<Rightarrow> string option sale" where
  "read_sale r =
     \<lparr>Date = Date r, sale_Title = read_cell (sale_Title r), Quantity = Quantity r,
      PricePerUnit = PricePerUnit r, Total = Total r\<rparr>"

definition write_sale :: "string option sale \<Rightarrow> string sale" where
  "write_sale r =
     \<lparr>Date = Date r, sale_Title = write_cell (sale_Title r), Quantity = Quantity r,
      PricePerUnit = PricePerUnit r, Total = Total r\<rparr>"

definition load_inventory :: "state \<Rightarrow> string option book list" where
  "load_inventory s = map read_book (books_csv s)"

definition save_inventory :: "string option book list \<Rightarrow> state \<Rightarrow> state" where
  "save_inventory df s = s\<lparr>books_csv := map write_book df\<rparr>"

definition load_sales :: "state \<Rightarrow> string option sale list" where
  "load_sales s = map read_sale (sales_csv s)"

definition save_sale :: "string \<Rightarrow> int \<Rightarrow> real \<Rightarrow> state \<Rightarrow> state" where
  "save_sale title quantity price s =
     (let df = load_sales s;
          new_row = \<lparr>Date = now s, sale_Title = Some title, Quantity = quantity,
                     PricePerUnit = price, Total = of_int quantity * price\<rparr>;
          df = df @ [new_row]
      in s\<lparr>sales_csv := map write_sale df\<rparr>)"

definition RECEIPT_PDF :: string where
  "RECEIPT_PDF = ''receipt.pdf''"

text \<open>
  The receipt text, as far as its encoding goes. Every line of the receipt is
  literal ASCII text around the formatted values, but for the rupee sign U+20B9,
  which the total line (line 73) holds on every call and every item line (line 70)
  as well. \<^verbatim>\<open>pdf.output\<close> (line 74) encodes the page in latin-1, the encoding of
  the core font chosen at line 64, and raises UnicodeEncodeError on a code point
  above 255; this happens while the document is closed, before the file is opened,
  so no receipt is written.
\<close>

definition rupee_sign :: nat where
  "rupee_sign = 8377"

definition latin1_encodable :: "nat list \<Rightarrow> bool" where
  "latin1_encodable code_points = list_all (\<lambda>c. c < 256) code_points"

definition generate_pdf_receipt ::
    "cart_line list \<Rightarrow> real \<Rightarrow> state \<Rightarrow> (exn + string) \<times> state" where
  "generate_pdf_receipt items total_amount s =
     (if latin1_encodable [rupee_sign]
      then (Inr RECEIPT_PDF, s\<lparr>receipt_pdf := Some (now s, items, total_amount)\<rparr>)
      else (Inl UnicodeEncodeError, s))"

text \<open>
  \<^verbatim>\<open>df[df["Title"] == title].index\<close>: the positions of the rows whose Title cell
  equals the given string, in table order. A missing cell equals no string.
\<close>

definition title_index :: "string \<Rightarrow> string option book list \<Rightarrow> nat list" where
  "title_index title df = [i \<leftarrow> [0..<length df]. Title (df ! i) = Some title]"

subsection \<open>Cart\<close>

definition add_to_cart ::
    "string \<Rightarrow> int \<Rightarrow> state \<Rightarrow> (exn + status \<times> cart_line list) \<times> state" where
  "add_to_cart title quantity s =
     (let df = load_inventory s in
      if Some title \<notin> set (map Title df) then (Inr (BookNotFound, cart_items s), s)
      else if quantity \<le> 0 then (Inr (InvalidQuantity, cart_items s), s)
      else (case filter (\<lambda>b. Title b = Some title) df of
              [] \<Rightarrow> (Inl IndexError, s)
            | row # _ \<Rightarrow>
                let s' = s\<lparr>cart_items := cart_items s @
                            [\<lparr>item_Title = title, item_Quantity = quantity,
                              item_Price = Price row\<rparr>]\<rparr>
                in (Inr (AddedToCart quantity title, cart_items s'), s')))"

subsection \<open>Checkout\<close>

text \<open>The first loop of \<^verbatim>\<open>checkout\<close>: \<open>Some msg\<close> is its early return.\<close>

fun validate :: "cart_line list \<Rightarrow> string option book list \<Rightarrow> status option" where
  "validate [] df = None"
| "validate (item # items) df =
     (case title_index (item_Title item) df of
        [] \<Rightarrow> Some (NotFoundInStock (item_Title item))
      | i # _ \<Rightarrow>
          let stock = Stock (df ! i) in
          if item_Quantity item > stock
          then Some (NotEnoughStock (item_Title item) stock)
          else validate items df)"

text \<open>
  The second loop: the frame is changed in memory, each sale is written to the
  sales file at once, the total is accumulated in \<open>tot\<close>. \<^verbatim>\<open>.index[0]\<close> on an empty index
  raises IndexError.
\<close>

fun process ::
    "cart_line list \<Rightarrow> string option book list \<Rightarrow> real \<Rightarrow> state \<Rightarrow>
       (exn + string option book list \<times> real) \<times> state" where
  "process [] df tot s = (Inr (df, tot), s)"
| "process (item # items) df tot s =
     (case title_index (item_Title item) df of
        [] \<Rightarrow> (Inl IndexError, s)
      | idx # _ \<Rightarrow>
          process items
            (df[idx := (df ! idx)\<lparr>Stock := Stock (df ! idx) - item_Quantity item\<rparr>])
            (tot + of_int (item_Quantity item) * item_Price item)
            (save_sale (item_Title item) (item_Quantity item) (item_Price item) s))"

text \<open>
  \<^verbatim>\<open>cart.clear()\<close>: the module binds no name \<^verbatim>\<open>cart\<close> (its list is
  \<^verbatim>\<open>cart_items\<close>), so evaluating the name raises NameError. The line stands
  after the call of the receipt generator, whose exception ends checkout first.
\<close>

definition cart_clear :: "state \<Rightarrow> exn + state" where
  "cart_clear s = Inl (NameError ''cart'')"

definition checkout :: "state \<Rightarrow> (exn + status \<times> string option) \<times> state" where
  "checkout s =
     (if cart_items s = [] then (Inr (CartIsEmpty, None), s)
      else
        let df = load_inventory s in
        case validate (cart_items s) df of
          Some msg \<Rightarrow> (Inr (msg, None), s)
        | None \<Rightarrow>
            (case process (cart_items s) df 0 s of
               (Inl e, s1) \<Rightarrow> (Inl e, s1)
             | (Inr (df', tot), s1) \<Rightarrow>
                 let s2 = save_inventory df' s1 in
                 (case generate_pdf_receipt (cart_items s2) tot s2 of
                    (Inl e, s3) \<Rightarrow> (Inl e, s3)
                  | (Inr receipt_path, s3) \<Rightarrow>
                      (case cart_clear s3 of
                         Inl e \<Rightarrow> (Inl e, s3)
                       | Inr s4 \<Rightarrow> (Inr (PurchaseSuccessful tot, Some receipt_path), s4)))))"

subsection \<open>Admin operations\<close>

fun dropna :: "'a option list \<Rightarrow> 'a list" where
  "dropna [] = []"
| "dropna (None # cs) = dropna cs"
| "dropna (Some a # cs) = a # dropna cs"

text \<open>\<^verbatim>\<open>Series.unique()\<close>: the distinct values in order of first appearance.\<close>

fun unique :: "'a list \<Rightarrow> 'a list" where
  "unique [] = []"
| "unique (x # xs) = x # unique (filter (\<lambda>y. y \<noteq> x) xs)"

definition get_unique_authors :: "state \<Rightarrow> string list \<times> state" where
  "get_unique_authors s =
     (let df = load_inventory s in (sort (unique (dropna (map Author df))), s))"

definition add_book ::
    "string \<Rightarrow> string option \<Rightarrow> string \<Rightarrow> string \<Rightarrow> int \<Rightarrow> real \<Rightarrow> state \<Rightarrow> status \<times> state" where
  "add_book title author_select author_input publisher stock price s =
     (let author = (if author_select = Some ''Other'' then Some author_input else author_select);
          df = load_inventory s
      in if Some title \<in> set (map Title df) then (BookExists, s)
         else
           let new_row = \<lparr>Title = Some title, Author = author, Publisher = Some publisher,
                          Stock = stock, Price = price\<rparr>;
               df = df @ [new_row]
           in (BookAdded, save_inventory df s))"

definition edit_book :: "string \<Rightarrow> int \<Rightarrow> real \<Rightarrow> state \<Rightarrow> status \<times> state" where
  "edit_book title new_stock new_price s =
     (let df = load_inventory s in
      case title_index title df of
        [] \<Rightarrow> (BookNotFound, s)
      | i # _ \<Rightarrow>
          let df = (if new_stock \<ge> 0 then df[i := (df ! i)\<lparr>Stock := new_stock\<rparr>] else df);
              df = (if new_price \<ge> 0 then df[i := (df ! i)\<lparr>Price := new_price\<rparr>] else df)
          in (BookUpdated, save_inventory df s))"

definition remove_book :: "string \<Rightarrow> state \<Rightarrow> status \<times> state" where
  "remove_book title s =
     (let df = load_inventory s in
      if Some title \<notin> set (map Title df) then (BookNotFound, s)
      else
        let df = filter (\<lambda>b. Title b \<noteq> Some title) df
        in (BookRemoved, save_inventory df s))"

subsection \<open>The stock invariant\<close>

text \<open>Every row of the Inventory Table has a Stock of at least 0.\<close>

definition stocks_nonneg :: "state \<Rightarrow> bool" where
  "stocks_nonneg s = list_all (\<lambda>b. 0 \<le> Stock b) (load_inventory s)"

subsection \<open>The states of the scenarios\<close>

text \<open>The tables as \<^verbatim>\<open>initialize_files\<close> creates them, and an empty cart.\<close>

definition empty_store :: state where
  "empty_store = \<lparr>books_csv = [], sales_csv = [], receipt_pdf = None, cart_items = [], now = 0\<rparr>"

definition dune :: "string book" where
  "dune = \<lparr>Title = ''Dune'', Author = ''Herbert'', Publisher = ''Ace'', Stock = 5, Price = 499\<rparr>"

definition dune_line :: "int \<Rightarrow> cart_line" where
  "dune_line q = \<lparr>item_Title = ''Dune'', item_Quantity = q, item_Price = 499\<rparr>"

definition dune_store :: "cart_line list \<Rightarrow> state" where
  "dune_store cart =
     \<lparr>books_csv = [dune], sales_csv = [], receipt_pdf = None, cart_items = cart, now = 0\<rparr>"

lemmas store_defs =
  empty_store_def dune_def dune_line_def dune_store_def

lemmas table_defs =
  load_inventory_def save_inventory_def load_sales_def save_sale_def
  read_book_def write_book_def read_sale_def write_sale_def read_cell_def write_cell_def
  na_values_def title_index_def generate_pdf_receipt_def rupee_sign_def latin1_encodable_def
  RECEIPT_PDF_def cart_clear_def

section \<open>Properties\<close>

subsection \<open>Looking a title up\<close>

lemma index_filter_find:
  "(case [i \<leftarrow> [0..<length xs]. P (xs ! i)] of [] \<Rightarrow> None | i # _ \<Rightarrow> Some (xs ! i)) = find P xs"
proof (induction xs)
  case Nil
  then show ?case by simp
next
  case (Cons x xs)
  have "[i \<leftarrow> [0..<length (x # xs)]. P ((x # xs) ! i)]
      = (if P x then [0] else []) @ map Suc [i \<leftarrow> [0..<length xs]. P (xs ! i)]"
    by (simp add: upt_conv_Cons map_Suc_upt[symmetric] filter_map o_def del: upt_Suc)
  with Cons show ?case
    by (auto split: list.splits)
qed

lemma title_index_find:
  "(case title_index t df of [] \<Rightarrow> None | i # _ \<Rightarrow> Some (df ! i)) = find (\<lambda>b. Title b = Some t) df"
  unfolding title_index_def by (rule index_filter_find)

lemma title_index_Nil_iff:
  "title_index t df = [] \<longleftrightarrow> Some t \<notin> set (map Title df)"
proof -
  have "title_index t df = [] \<longleftrightarrow> (\<forall>i<length df. Title (df ! i) \<noteq> Some t)"
    by (auto simp: title_index_def filter_empty_conv)
  also have "\<dots> \<longleftrightarrow> Some t \<notin> set (map Title df)"
    by (metis (no_types, lifting) in_set_conv_nth length_map nth_map)
  finally show ?thesis .
qed

lemma title_index_Cons:
  assumes "title_index t df = i # js"
  shows "i < length df" and "Title (df ! i) = Some t"
proof -
  have "i \<in> set (title_index t df)" using assms by simp
  then show "i < length df" and "Title (df ! i) = Some t"
    by (simp_all add: title_index_def)
qed

lemma title_index_titles:
  "title_index t df = [i \<leftarrow> [0..<length (map Title df)]. map Title df ! i = Some t]"
  unfolding title_index_def by (rule filter_cong) simp_all

lemma title_index_cong:
  "map Title df' = map Title df \<Longrightarrow> title_index t df' = title_index t df"
  by (simp add: title_index_titles)

lemma map_Title_update_Stock [simp]:
  "map Title (df[i := (df ! i)\<lparr>Stock := x\<rparr>]) = map Title df"
  by (cases "i < length df") (simp_all add: map_update list_update_same_conv list_update_beyond not_less)

lemma map_Title_update_Price [simp]:
  "map Title (df[i := (df ! i)\<lparr>Price := x\<rparr>]) = map Title df"
  by (cases "i < length df") (simp_all add: map_update list_update_same_conv list_update_beyond not_less)

subsection \<open>The validation loop\<close>

lemma validate_msg:
  "validate items df = Some msg \<Longrightarrow>
     (\<exists>t. msg = NotFoundInStock t) \<or> (\<exists>t k. msg = NotEnoughStock t k)"
  by (induction items) (auto split: list.splits if_splits simp: Let_def)

lemma validate_fails:
  assumes "item \<in> set items"
    and "Some (item_Title item) \<notin> set (map Title df) \<or>
         (\<exists>b. find (\<lambda>b. Title b = Some (item_Title item)) df = Some b \<and> item_Quantity item > Stock b)"
  shows "validate items df \<noteq> None"
  using assms
proof (induction items)
  case Nil
  then show ?case by simp
next
  case (Cons a items)
  show ?case
  proof (cases "title_index (item_Title a) df")
    case Nil
    then show ?thesis by simp
  next
    case (Cons i js)
    note idx = this
    show ?thesis
    proof (cases "item_Quantity a > Stock (df ! i)")
      case True
      with idx show ?thesis by simp
    next
      case False
      have fa: "find (\<lambda>b. Title b = Some (item_Title a)) df = Some (df ! i)"
        using title_index_find[where t = "item_Title a" and df = df] idx by simp
      have nn: "title_index (item_Title a) df \<noteq> []" using idx by simp
      have "item \<noteq> a"
        using Cons.prems(2) False fa nn by (auto simp: title_index_Nil_iff)
      then have "item \<in> set items" using Cons.prems(1) by simp
      then have "validate items df \<noteq> None" using Cons.IH Cons.prems(2) by blast
      with idx False show ?thesis by simp
    qed
  qed
qed

lemma validate_passes:
  "validate items df = None \<Longrightarrow> item \<in> set items \<Longrightarrow>
     \<exists>b. find (\<lambda>b. Title b = Some (item_Title item)) df = Some b \<and> item_Quantity item \<le> Stock b"
proof -
  assume v: "validate items df = None" and m: "item \<in> set items"
  show ?thesis
  proof (cases "find (\<lambda>b. Title b = Some (item_Title item)) df")
    case None
    then have "Some (item_Title item) \<notin> set (map Title df)"
      by (auto simp: find_None_iff)
    with validate_fails[OF m, of df] v show ?thesis by simp
  next
    case (Some b)
    show ?thesis
    proof (cases "item_Quantity item > Stock b")
      case True
      with Some validate_fails[OF m, of df] v show ?thesis by simp
    next
      case False
      with Some show ?thesis by simp
    qed
  qed
qed

subsection \<open>Checkout when validation fails\<close>

text \<open>
  C4. Checkout is atomic on validation failure: when some cart line names a title
  that no row of the Inventory Table carries, or asks for more than the Stock of
  the row of its title, checkout returns one of the two validation messages and
  nothing else, and the whole state (Inventory Table, Sales Table, receipt, Cart)
  is the state it started from.
\<close>

theorem checkout_validation_failure_atomic:
  assumes "item \<in> set (cart_items s)"
    and "Some (item_Title item) \<notin> set (map Title (load_inventory s)) \<or>
         (\<exists>b. find (\<lambda>b. Title b = Some (item_Title item)) (load_inventory s) = Some b \<and>
              item_Quantity item > Stock b)"
  shows "\<exists>msg. checkout s = (Inr (msg, None), s) \<and>
           ((\<exists>t. msg = NotFoundInStock t) \<or> (\<exists>t k. msg = NotEnoughStock t k))"
proof -
  from assms have "validate (cart_items s) (load_inventory s) \<noteq> None"
    by (rule validate_fails)
  then obtain msg where v: "validate (cart_items s) (load_inventory s) = Some msg"
    by auto
  from assms(1) have ne: "cart_items s \<noteq> []" by auto
  from v ne have "checkout s = (Inr (msg, None), s)"
    by (simp add: checkout_def)
  with validate_msg[OF v] show ?thesis by blast
qed

theorem checkout_validation_failure_atomic_witness:
  "dune_line 6 \<in> set (cart_items (dune_store [dune_line 2, dune_line 6])) \<and>
   (\<exists>b. find (\<lambda>b. Title b = Some (item_Title (dune_line 6)))
           (load_inventory (dune_store [dune_line 2, dune_line 6])) = Some b \<and>
        item_Quantity (dune_line 6) > Stock b) \<and>
   (\<exists>msg. checkout (dune_store [dune_line 2, dune_line 6]) =
            (Inr (msg, None), dune_store [dune_line 2, dune_line 6]) \<and>
      ((\<exists>t. msg = NotFoundInStock t) \<or> (\<exists>t k. msg = NotEnoughStock t k)))"
proof -
  have h1: "dune_line 6 \<in> set (cart_items (dune_store [dune_line 2, dune_line 6]))"
    by (simp add: store_defs)
  have h2: "\<exists>b. find (\<lambda>b. Title b = Some (item_Title (dune_line 6)))
           (load_inventory (dune_store [dune_line 2, dune_line 6])) = Some b \<and>
        item_Quantity (dune_line 6) > Stock b"
    by (simp add: store_defs table_defs)
  from h2 have h2': "Some (item_Title (dune_line 6)) \<notin>
        set (map Title (load_inventory (dune_store [dune_line 2, dune_line 6]))) \<or>
      (\<exists>b. find (\<lambda>b. Title b = Some (item_Title (dune_line 6)))
           (load_inventory (dune_store [dune_line 2, dune_line 6])) = Some b \<and>
        item_Quantity (dune_line 6) > Stock b)" ..
  from checkout_validation_failure_atomic[OF h1 h2'] h1 h2 show ?thesis by blast
qed

subsection \<open>Checkout when validation passes\<close>

lemma validate_None_found:
  "validate items df = None \<Longrightarrow> item \<in> set items \<Longrightarrow> title_index (item_Title item) df \<noteq> []"
proof -
  assume "validate items df = None" and "item \<in> set items"
  then obtain b where "find (\<lambda>b. Title b = Some (item_Title item)) df = Some b"
    using validate_passes by blast
  then show ?thesis
    using title_index_find[where t = "item_Title item" and df = df] by auto
qed

lemma process_returns:
  "(\<And>item. item \<in> set items \<Longrightarrow> title_index (item_Title item) df \<noteq> []) \<Longrightarrow>
     \<exists>df' tot'. fst (process items df tot s) = Inr (df', tot')"
proof (induction items arbitrary: df tot s)
  case Nil
  then show ?case by simp
next
  case (Cons a items)
  from Cons.prems[of a] obtain idx js where idx: "title_index (item_Title a) df = idx # js"
    by (cases "title_index (item_Title a) df") auto
  let ?df = "df[idx := (df ! idx)\<lparr>Stock := Stock (df ! idx) - item_Quantity a\<rparr>]"
  have "\<And>item. item \<in> set items \<Longrightarrow> title_index (item_Title item) ?df \<noteq> []"
    using Cons.prems by (simp add: title_index_cong[of ?df df])
  from Cons.IH[OF this] idx show ?case by simp
qed

text \<open>
  C3. No public operation raises an uncaught exception. The code does: whenever the
  cart is not empty and the validation loop passes, checkout writes the sales and
  the inventory and then ends in the UnicodeEncodeError of the receipt generator
  (line 130), which nothing catches, whatever the tables hold.
\<close>

theorem checkout_raises_uncaught_exception:
  assumes "cart_items s \<noteq> []" and "validate (cart_items s) (load_inventory s) = None"
  shows "fst (checkout s) = Inl UnicodeEncodeError"
proof -
  have "\<And>item. item \<in> set (cart_items s) \<Longrightarrow>
          title_index (item_Title item) (load_inventory s) \<noteq> []"
    using assms(2) by (rule validate_None_found)
  from process_returns[OF this] obtain df' tot'
    where "fst (process (cart_items s) (load_inventory s) 0 s) = Inr (df', tot')"
    by blast
  then show ?thesis
    using assms
    by (cases "process (cart_items s) (load_inventory s) 0 s")
       (simp add: checkout_def generate_pdf_receipt_def rupee_sign_def latin1_encodable_def
          Let_def)
qed

theorem checkout_raises_uncaught_exception_witness:
  "cart_items (dune_store [dune_line 1]) \<noteq> [] \<and>
   validate (cart_items (dune_store [dune_line 1])) (load_inventory (dune_store [dune_line 1])) = None \<and>
   fst (checkout (dune_store [dune_line 1])) = Inl UnicodeEncodeError"
proof -
  have h1: "cart_items (dune_store [dune_line 1]) \<noteq> []"
    by (simp add: store_defs)
  have h2: "validate (cart_items (dune_store [dune_line 1]))
              (load_inventory (dune_store [dune_line 1])) = None"
    by (simp add: store_defs table_defs)
  from checkout_raises_uncaught_exception[OF h1 h2] h1 h2 show ?thesis by blast
qed

text \<open>
  C1. Dune has Stock 5 and the cart holds two Dune lines of quantity 3 and 4. The
  claim is that checkout fails with the insufficient-stock message and changes
  nothing. The code validates each line against the Stock on its own (3 and 4 are
  both at most 5) and returns no message; it sells both lines, leaves Stock at -2
  with two rows in the Sales Table, and ends in the exception of the receipt
  generator, with no receipt written and both lines in the cart.
\<close>

theorem checkout_same_title_lines_oversell:
  "validate [dune_line 3, dune_line 4] (load_inventory (dune_store [dune_line 3, dune_line 4])) = None \<and>
   fst (checkout (dune_store [dune_line 3, dune_line 4])) = Inl UnicodeEncodeError \<and>
   map Stock (load_inventory (snd (checkout (dune_store [dune_line 3, dune_line 4])))) = [- 2] \<and>
   map Quantity (load_sales (snd (checkout (dune_store [dune_line 3, dune_line 4])))) = [3, 4] \<and>
   receipt_pdf (snd (checkout (dune_store [dune_line 3, dune_line 4]))) = None \<and>
   cart_items (snd (checkout (dune_store [dune_line 3, dune_line 4]))) = [dune_line 3, dune_line 4]"
  by (simp add: checkout_def store_defs table_defs)

text \<open>
  C2. Dune has Stock 5 and Price 499 and the cart holds one Dune line of quantity 2,
  so validation passes. The claim is that checkout returns the success result with
  the total and the receipt path and clears the cart. The code decrements Stock
  to 3, appends the sale record (quantity 2, unit price 499, total 998) and saves
  the inventory; then the receipt generator raises at line 130: no result is
  returned, no receipt is written and the cart keeps its line.
\<close>

theorem checkout_valid_cart_no_result_cart_kept:
  "checkout (dune_store [dune_line 2]) =
     (Inl UnicodeEncodeError,
      \<lparr>books_csv = [dune\<lparr>Stock := 3\<rparr>],
       sales_csv = [\<lparr>Date = 0, sale_Title = ''Dune'', Quantity = 2, PricePerUnit = 499,
                     Total = 998\<rparr>],
       receipt_pdf = None,
       cart_items = [dune_line 2], now = 0\<rparr>)"
  by (simp add: checkout_def store_defs table_defs)

subsection \<open>Adding to the cart\<close>

lemma find_filter:
  "find P xs = (case filter P xs of [] \<Rightarrow> None | x # _ \<Rightarrow> Some x)"
  by (induction xs) auto

lemma title_in_filter:
  "Some title \<in> set (map Title df) \<Longrightarrow> filter (\<lambda>b. Title b = Some title) df \<noteq> []"
  by (auto simp: filter_empty_conv)

lemma add_to_cart_succeeds:
  assumes "Some title \<in> set (map Title (load_inventory s))" and "0 < quantity"
  shows "\<exists>c s'. add_to_cart title quantity s = (Inr (AddedToCart quantity title, c), s')"
  using assms title_in_filter[OF assms(1)]
  by (auto simp: add_to_cart_def Let_def split: list.splits)

text \<open>
  C7, as the code has it. A quantity that is zero or negative never changes the
  cart or the tables, and the message is the invalid-quantity one when the title is
  in the Inventory Table. The title is checked first: for a title that is not in
  the table the message is the book-not-found one, whatever the quantity.
\<close>

theorem add_to_cart_nonpositive_quantity:
  assumes "quantity \<le> 0"
  shows "add_to_cart title quantity s =
           (Inr (if Some title \<in> set (map Title (load_inventory s))
                 then InvalidQuantity else BookNotFound, cart_items s), s)"
  using assms by (simp add: add_to_cart_def Let_def)

theorem add_to_cart_nonpositive_quantity_witness:
  "(0::int) \<le> 0 \<and>
   add_to_cart ''Dune'' 0 (dune_store [dune_line 2]) =
     (Inr (InvalidQuantity, [dune_line 2]), dune_store [dune_line 2]) \<and>
   add_to_cart ''Emma'' 0 (dune_store [dune_line 2]) =
     (Inr (BookNotFound, [dune_line 2]), dune_store [dune_line 2])"
proof -
  have h: "(0::int) \<le> 0" by simp
  have d: "Some ''Dune'' \<in> set (map Title (load_inventory (dune_store [dune_line 2])))"
    by (simp add: store_defs table_defs)
  have e: "Some ''Emma'' \<notin> set (map Title (load_inventory (dune_store [dune_line 2])))"
    by (simp add: store_defs table_defs)
  have c: "cart_items (dune_store [dune_line 2]) = [dune_line 2]"
    by (simp add: store_defs)
  from add_to_cart_nonpositive_quantity[OF h, of "''Dune''" "dune_store [dune_line 2]"]
       add_to_cart_nonpositive_quantity[OF h, of "''Emma''" "dune_store [dune_line 2]"]
       d e c
  show ?thesis by simp
qed

text \<open>
  C7 as stated fails: with Dune the only book, adding the unknown title Emma with
  quantity 0 does not give the invalid-quantity message.
\<close>

theorem add_to_cart_unknown_title_counterexample:
  "\<not> (fst (add_to_cart ''Emma'' 0 (dune_store [])) =
        Inr (InvalidQuantity, cart_items (dune_store [])))"
  by (simp add: add_to_cart_def store_defs table_defs)

text \<open>
  C10. Every successful cart add appends exactly one line at the end of the cart:
  the lines already there stay as they are (a line of the same title is not
  merged), and the new line carries the title and quantity given and the Price of
  the first row of that title in the Inventory Table as it is at this call. The
  tables are not written.
\<close>

theorem add_to_cart_appends_one_line:
  assumes "add_to_cart title quantity s = (Inr (AddedToCart q t, c), s')"
  shows "\<exists>row. find (\<lambda>b. Title b = Some title) (load_inventory s) = Some row \<and>
           s' = s\<lparr>cart_items := cart_items s @
                  [\<lparr>item_Title = title, item_Quantity = quantity, item_Price = Price row\<rparr>]\<rparr> \<and>
           c = cart_items s' \<and> q = quantity \<and> t = title \<and> 0 < quantity"
  using assms
  by (auto simp: add_to_cart_def Let_def find_filter split: if_splits list.splits)

theorem add_to_cart_appends_one_line_witness:
  "add_to_cart ''Dune'' 4
       (dune_store [\<lparr>item_Title = ''Dune'', item_Quantity = 3, item_Price = 450\<rparr>]) =
     (Inr (AddedToCart 4 ''Dune'',
           [\<lparr>item_Title = ''Dune'', item_Quantity = 3, item_Price = 450\<rparr>, dune_line 4]),
      dune_store [\<lparr>item_Title = ''Dune'', item_Quantity = 3, item_Price = 450\<rparr>, dune_line 4]) \<and>
   (\<exists>row. find (\<lambda>b. Title b = Some ''Dune'')
             (load_inventory
               (dune_store [\<lparr>item_Title = ''Dune'', item_Quantity = 3, item_Price = 450\<rparr>])) =
           Some row \<and>
      dune_store [\<lparr>item_Title = ''Dune'', item_Quantity = 3, item_Price = 450\<rparr>, dune_line 4] =
        (dune_store [\<lparr>item_Title = ''Dune'', item_Quantity = 3, item_Price = 450\<rparr>])
          \<lparr>cart_items :=
             cart_items (dune_store [\<lparr>item_Title = ''Dune'', item_Quantity = 3, item_Price = 450\<rparr>]) @
             [\<lparr>item_Title = ''Dune'', item_Quantity = 4, item_Price = Price row\<rparr>]\<rparr>)"
proof -
  have h: "add_to_cart ''Dune'' 4
       (dune_store [\<lparr>item_Title = ''Dune'', item_Quantity = 3, item_Price = 450\<rparr>]) =
     (Inr (AddedToCart 4 ''Dune'',
           [\<lparr>item_Title = ''Dune'', item_Quantity = 3, item_Price = 450\<rparr>, dune_line 4]),
      dune_store [\<lparr>item_Title = ''Dune'', item_Quantity = 3, item_Price = 450\<rparr>, dune_line 4])"
    by (simp add: add_to_cart_def store_defs table_defs)
  from add_to_cart_appends_one_line[OF h] h show ?thesis by blast
qed

subsection \<open>The table store's round trip\<close>



lemma read_write_read_cell [simp]: "read_cell (write_cell (read_cell t)) = read_cell t"
  by (simp add: read_cell_def write_cell_def na_values_def)

lemma read_write_read_book [simp]: "read_book (write_book (read_book r)) = read_book r"
  by (simp add: read_book_def write_book_def)

lemma read_write_Stock [simp]:
  "read_book (write_book (b\<lparr>Stock := x\<rparr>)) = (read_book (write_book b))\<lparr>Stock := x\<rparr>"
  by (simp add: read_book_def write_book_def)

lemma read_write_Price [simp]:
  "read_book (write_book (b\<lparr>Price := x\<rparr>)) = (read_book (write_book b))\<lparr>Price := x\<rparr>"
  by (simp add: read_book_def write_book_def)

lemma load_save_inventory:
  "load_inventory (save_inventory df s) = map (\<lambda>b. read_book (write_book b)) df"
  by (simp add: load_inventory_def save_inventory_def)

lemma read_write_load [simp]:
  "map (\<lambda>b. read_book (write_book b)) (load_inventory s) = load_inventory s"
  by (simp add: load_inventory_def)


subsection \<open>Editing a book\<close>



subsection \<open>The author list\<close>

lemma set_dropna: "set (dropna cs) = {a. Some a \<in> set cs}"
  by (induction cs rule: dropna.induct) auto

lemma set_unique: "set (unique xs) = set xs"
  by (induction xs rule: unique.induct) auto

lemma distinct_unique: "distinct (unique xs)"
  by (induction xs rule: unique.induct) (auto simp: set_unique)

lemma load_Author_cells:
  "Some a \<in> set (map Author (load_inventory s)) \<longleftrightarrow>
     a \<in> set (map Author (books_csv s)) \<and> a \<notin> set na_values"
  by (auto simp: load_inventory_def read_book_def read_cell_def image_iff)

text \<open>
  What the author list is in general: sorted and without repetition; its members
  are exactly the Author values of the Inventory Table that are set, that is the
  Author cells of the file that are not read as a missing value; the empty string
  is never a member; and the call leaves the whole state as it is.
\<close>

lemma get_unique_authors_sorted_distinct:
  "sorted (fst (get_unique_authors s)) \<and> distinct (fst (get_unique_authors s)) \<and>
   set (fst (get_unique_authors s)) = {a. Some a \<in> set (map Author (load_inventory s))} \<and>
   set (fst (get_unique_authors s)) = {a \<in> set (map Author (books_csv s)). a \<notin> set na_values} \<and>
   '''' \<notin> set (fst (get_unique_authors s)) \<and>
   snd (get_unique_authors s) = s"
proof -
  have a: "set (fst (get_unique_authors s)) = {a. Some a \<in> set (map Author (load_inventory s))}"
    by (simp add: get_unique_authors_def set_unique set_dropna)
  have b: "{a. Some a \<in> set (map Author (load_inventory s))}
      = {a \<in> set (map Author (books_csv s)). a \<notin> set na_values}"
    using load_Author_cells[of _ s] by blast
  have c: "'''' \<in> set na_values" by (simp add: na_values_def)
  show ?thesis
    using a b c by (simp add: get_unique_authors_def distinct_unique)
qed

text \<open>
  C9. The claim is that the author list holds the distinct authors of the
  inventory and leaves out only the unset and the empty ones. On the tables as
  created, a book added with the author NA is stored with the Author field NA, and
  the author list is then empty: the field is read back as a missing value and
  dropped with the unset ones. An author that is read back as text is listed
  (Herbert below).
\<close>

theorem get_unique_authors_drops_marker_author:
  "map Author (books_csv (snd (add_book ''Emma'' (Some ''Other'') ''NA'' ''Penguin'' 3 250
         empty_store))) = [''NA''] \<and>
   fst (get_unique_authors (snd (add_book ''Emma'' (Some ''Other'') ''NA'' ''Penguin'' 3 250
         empty_store))) = [] \<and>
   fst (get_unique_authors (dune_store [])) = [''Herbert'']"
  by (simp add: get_unique_authors_def add_book_def store_defs table_defs)

subsection \<open>The stock invariant under the operations\<close>

lemma Stock_read_write [simp]: "Stock (read_book (write_book b)) = Stock b"
  by (simp add: read_book_def write_book_def)

lemma stocks_nonneg_save:
  "stocks_nonneg (save_inventory df s) = list_all (\<lambda>b. 0 \<le> Stock b) df"
  by (simp add: stocks_nonneg_def load_save_inventory list_all_iff)

lemma list_all_update:
  "list_all P xs \<Longrightarrow> P x \<Longrightarrow> list_all P (xs[i := x])"
  using set_update_subset_insert[of xs i x] by (auto simp: list_all_iff)

lemma validate_update_other:
  assumes "t \<notin> set (map item_Title items)" and "Title (df ! idx) = Some t"
  shows "validate items (df[idx := (df ! idx)\<lparr>Stock := x\<rparr>]) = validate items df"
  using assms(1)
proof (induction items)
  case Nil
  then show ?case by simp
next
  case (Cons a items)
  let ?df = "df[idx := (df ! idx)\<lparr>Stock := x\<rparr>]"
  have ti: "title_index (item_Title a) ?df = title_index (item_Title a) df"
    by (simp add: title_index_cong[of ?df df])
  from Cons.prems have ne: "item_Title a \<noteq> t" and rest: "t \<notin> set (map item_Title items)"
    by auto
  show ?case
  proof (cases "title_index (item_Title a) df")
    case Nil
    with ti show ?thesis by simp
  next
    case (Cons j js)
    from title_index_Cons[OF Cons] ne assms(2) have "j \<noteq> idx" by auto
    then have "?df ! j = df ! j" by simp
    with Cons ti Cons.IH[OF rest] show ?thesis by (simp add: Let_def)
  qed
qed

lemma process_stocks_nonneg:
  assumes "validate items df = None" and "distinct (map item_Title items)"
    and "list_all (\<lambda>b. 0 \<le> Stock b) df"
    and "fst (process items df tot s) = Inr (df', tot')"
  shows "list_all (\<lambda>b. 0 \<le> Stock b) df'"
  using assms
proof (induction items arbitrary: df tot s)
  case Nil
  then show ?case by simp
next
  case (Cons a items)
  from Cons.prems(1) obtain idx js where idx: "title_index (item_Title a) df = idx # js"
    by (cases "title_index (item_Title a) df") auto
  let ?df = "df[idx := (df ! idx)\<lparr>Stock := Stock (df ! idx) - item_Quantity a\<rparr>]"
  from Cons.prems(1) idx have le: "item_Quantity a \<le> Stock (df ! idx)"
    and v: "validate items df = None"
    by (auto simp: Let_def split: if_splits)
  from Cons.prems(2) have nin: "item_Title a \<notin> set (map item_Title items)"
    and d: "distinct (map item_Title items)" by auto
  have v': "validate items ?df = None"
    using validate_update_other[OF nin title_index_Cons(2)[OF idx]] v by simp
  have nn: "list_all (\<lambda>b. 0 \<le> Stock b) ?df"
    using Cons.prems(3) le by (intro list_all_update) simp_all
  from Cons.prems(4) idx
  have "fst (process items ?df (tot + of_int (item_Quantity a) * item_Price a)
          (save_sale (item_Title a) (item_Quantity a) (item_Price a) s)) = Inr (df', tot')"
    by simp
  from Cons.IH[OF v' d nn this] show ?case .
qed

lemma checkout_state:
  assumes "cart_items s \<noteq> []" and "validate (cart_items s) (load_inventory s) = None"
  shows "\<exists>df' tot' s1. process (cart_items s) (load_inventory s) 0 s = (Inr (df', tot'), s1) \<and>
           load_inventory (snd (checkout s)) = map (\<lambda>b. read_book (write_book b)) df'"
proof -
  have "\<And>item. item \<in> set (cart_items s) \<Longrightarrow>
          title_index (item_Title item) (load_inventory s) \<noteq> []"
    using assms(2) by (rule validate_None_found)
  from process_returns[OF this] obtain df' tot'
    where "fst (process (cart_items s) (load_inventory s) 0 s) = Inr (df', tot')"
    by blast
  then obtain s1 where p: "process (cart_items s) (load_inventory s) 0 s = (Inr (df', tot'), s1)"
    by (cases "process (cart_items s) (load_inventory s) 0 s") simp
  then have "load_inventory (snd (checkout s)) = map (\<lambda>b. read_book (write_book b)) df'"
    using assms
    by (simp add: checkout_def generate_pdf_receipt_def rupee_sign_def latin1_encodable_def
        Let_def load_inventory_def save_inventory_def)
  with p show ?thesis by blast
qed

lemma checkout_stocks_nonneg:
  assumes "stocks_nonneg s" and "distinct (map item_Title (cart_items s))"
  shows "stocks_nonneg (snd (checkout s))"
proof (cases "cart_items s = [] \<or> validate (cart_items s) (load_inventory s) \<noteq> None")
  case True
  then have "snd (checkout s) = s"
    by (auto simp: checkout_def)
  with assms show ?thesis by simp
next
  case False
  then have ne: "cart_items s \<noteq> []" and v: "validate (cart_items s) (load_inventory s) = None"
    by auto
  from checkout_state[OF ne v] obtain df' tot' s1 where
    p: "process (cart_items s) (load_inventory s) 0 s = (Inr (df', tot'), s1)" and
    l: "load_inventory (snd (checkout s)) = map (\<lambda>b. read_book (write_book b)) df'"
    by blast
  from p have "fst (process (cart_items s) (load_inventory s) 0 s) = Inr (df', tot')" by simp
  from process_stocks_nonneg[OF v assms(2) _ this] assms(1)
  have "list_all (\<lambda>b. 0 \<le> Stock b) df'" by (simp add: stocks_nonneg_def)
  with l show ?thesis by (simp add: stocks_nonneg_def list_all_iff)
qed

lemma edit_book_stocks_nonneg:
  assumes "stocks_nonneg s"
  shows "stocks_nonneg (snd (edit_book title new_stock new_price s))"
proof (cases "title_index title (load_inventory s)")
  case Nil
  with assms show ?thesis by (simp add: edit_book_def)
next
  case (Cons i js)
  from assms have a: "list_all (\<lambda>b. 0 \<le> Stock b) (load_inventory s)"
    by (simp add: stocks_nonneg_def)
  from title_index_Cons(1)[OF Cons] a have si: "0 \<le> Stock (load_inventory s ! i)"
    by (simp add: list_all_iff)
  show ?thesis
    using Cons a si title_index_Cons(1)[OF Cons]
    by (auto simp: edit_book_def Let_def stocks_nonneg_save intro!: list_all_update)
qed

lemma remove_book_stocks_nonneg:
  assumes "stocks_nonneg s"
  shows "stocks_nonneg (snd (remove_book title s))"
  using assms
  by (auto simp: remove_book_def Let_def stocks_nonneg_save)
     (auto simp: stocks_nonneg_def list_all_iff)

lemma add_book_stocks_nonneg:
  assumes "stocks_nonneg s"
  shows "stocks_nonneg (snd (add_book title author_select author_input publisher stock price s))
           \<longleftrightarrow> 0 \<le> stock \<or> Some title \<in> set (map Title (load_inventory s))"
  using assms
  by (auto simp: add_book_def Let_def stocks_nonneg_save)
     (auto simp: stocks_nonneg_def)


text \<open>
  C5, as the code has it. From a state in which every Stock is at least 0:
  edit_book and remove_book lead to such a state again; add_book does so exactly
  when the stock it is given is at least 0 or the title is already present (it
  stores the stock it is given as it is); checkout does so whenever no two cart
  lines carry the same title.
\<close>

theorem stock_nonneg_preserved:
  assumes "stocks_nonneg s"
  shows "stocks_nonneg (snd (edit_book title new_stock new_price s)) \<and>
         stocks_nonneg (snd (remove_book title s)) \<and>
         (stocks_nonneg (snd (add_book title author_select author_input publisher stock price s))
            \<longleftrightarrow> 0 \<le> stock \<or> Some title \<in> set (map Title (load_inventory s))) \<and>
         (distinct (map item_Title (cart_items s)) \<longrightarrow> stocks_nonneg (snd (checkout s)))"
  using assms edit_book_stocks_nonneg remove_book_stocks_nonneg add_book_stocks_nonneg
    checkout_stocks_nonneg
  by blast

theorem stock_nonneg_preserved_witness:
  "stocks_nonneg (dune_store [dune_line 2]) \<and>
   distinct (map item_Title (cart_items (dune_store [dune_line 2]))) \<and>
   stocks_nonneg (snd (edit_book ''Dune'' 0 (- 1) (dune_store [dune_line 2]))) \<and>
   stocks_nonneg (snd (remove_book ''Dune'' (dune_store [dune_line 2]))) \<and>
   stocks_nonneg (snd (add_book ''Emma'' (Some ''Austen'') '''' ''Penguin'' 0 250
                        (dune_store [dune_line 2]))) \<and>
   stocks_nonneg (snd (checkout (dune_store [dune_line 2])))"
proof -
  have h: "stocks_nonneg (dune_store [dune_line 2])"
    by (simp add: stocks_nonneg_def store_defs table_defs)
  have d: "distinct (map item_Title (cart_items (dune_store [dune_line 2])))"
    by (simp add: store_defs)
  from stock_nonneg_preserved[OF h, where title = "''Dune''" and new_stock = 0
         and new_price = "- 1"]
       stock_nonneg_preserved[OF h, where title = "''Emma''" and author_select = "Some ''Austen''"
         and author_input = "''''" and publisher = "''Penguin''" and stock = 0 and price = 250]
       h d
  show ?thesis by simp
qed

text \<open>
  C5 as stated fails: on the empty Inventory Table every Stock is at least 0, and
  add_book with stock -1 leaves a row whose Stock is -1.
\<close>

theorem add_book_negative_stock_counterexample:
  "stocks_nonneg empty_store \<and>
   \<not> stocks_nonneg (snd (add_book ''Dune'' (Some ''Herbert'') '''' ''Ace'' (- 1) 499 empty_store))"
  by (simp add: stocks_nonneg_def add_book_def store_defs table_defs)

subsection \<open>Adding a book\<close>

text \<open>
  C6. The claim is that add_book refuses a title that is already in the table, so
  that titles stay unique. On the tables as created, adding a book with the empty
  title twice succeeds both times: the first row's empty Title is read back as a
  missing value, which equals no string, so the second call finds no duplicate and
  the table ends with two rows of the same title. A title that is read back as text
  is refused the second time (Dune below).
\<close>

theorem add_book_empty_title_twice:
  "fst (add_book '''' None '''' '''' 10 100 empty_store) = BookAdded \<and>
   fst (add_book '''' None '''' '''' 10 100
          (snd (add_book '''' None '''' '''' 10 100 empty_store))) = BookAdded \<and>
   map Title (books_csv (snd (add_book '''' None '''' '''' 10 100
          (snd (add_book '''' None '''' '''' 10 100 empty_store))))) = ['''', ''''] \<and>
   add_book ''Dune'' (Some ''Herbert'') '''' ''Ace'' 5 499 (dune_store []) =
     (BookExists, dune_store [])"
  by (simp add: add_book_def store_defs table_defs)

end
